theory Spec2Isabelle
  imports Main "HOL-Library.Sublist"
begin

section \<open>Text\<close>

text \<open>
  The worker handles Python text strings (the module imports \<open>unicode_literals\<close>), whose
  elements are code points. A string is a list of code points, each a natural number;
  \<open>ustr\<close> reads an ASCII literal as such a list.
\<close>

type_synonym ustring = "nat list"

definition ustr :: "string \<Rightarrow> ustring" where
  "ustr s = map of_char s"

text \<open>The two Hangul suffixes of \<open>load_details\<close>: U+AD8C (volume) and U+D654 (episode).\<close>

definition kwon :: nat where
  "kwon = 44428"

definition hwa :: nat where
  "hwa = 54868"

text \<open>
  Three ASCII characters are written by their code points throughout: the line feed is
  10, the double quote 34 and the backslash 92.
\<close>

section \<open>White space and decimal digits\<close>

text \<open>
  The white space of Python 3 (\<open>str.isspace\<close>, what \<open>str.strip\<close> removes and what \<open>\s\<close>
  matches in a text pattern), and its decimal digits (what \<open>\d\<close> matches and what \<open>int\<close>
  and \<open>float\<close> read): the characters of category Nd, which come in runs of ten from a
  digit zero. \<open>nd_zeros\<close> lists the zeros of Unicode 14.
\<close>

definition py_isspace :: "nat \<Rightarrow> bool" where
  "py_isspace c = ((9 \<le> c \<and> c \<le> 13) \<or> (28 \<le> c \<and> c \<le> 32) \<or> c = 133 \<or> c = 160
     \<or> c = 5760 \<or> (8192 \<le> c \<and> c \<le> 8202) \<or> c = 8232 \<or> c = 8233 \<or> c = 8239
     \<or> c = 8287 \<or> c = 12288)"

definition nd_zeros :: "nat list" where
  "nd_zeros =
     [48, 1632, 1776, 1984, 2406, 2534, 2662, 2790, 2918, 3046, 3174, 3302, 3430, 3558, 3664,
      3792, 3872, 4160, 4240, 6112, 6160, 6470, 6608, 6784, 6800, 6992, 7088, 7232, 7248,
      42528, 43216, 43264, 43472, 43504, 43600, 44016, 65296, 66720, 68912, 69734, 69872,
      69942, 70096, 70384, 70736, 70864, 71248, 71360, 71472, 71904, 72016, 72784, 73040,
      73120, 92768, 92864, 93008, 120782, 120792, 120802, 120812, 120822, 123200, 123632,
      125264, 130032]"

definition decimal_value :: "nat \<Rightarrow> nat option" where
  "decimal_value c =
     (case find (\<lambda>z. z \<le> c \<and> c < z + 10) nd_zeros of
        None \<Rightarrow> None
      | Some z \<Rightarrow> Some (c - z))"

text \<open>The ASCII digits among them.\<close>

definition is_digit :: "nat \<Rightarrow> bool" where
  "is_digit c = (48 \<le> c \<and> c \<le> 57)"

section \<open>The regular expressions of the worker\<close>

text \<open>
  \<open>load_details\<close> uses three patterns: \<open>^"(.*)"$\<close>, \<open>(.*)\s*(\d+)\<close> followed by U+AD8C,
  and the same followed by U+D654. Each is a sequence of items: a greedy repetition of a
  character class with a least count (0 for \<open>*\<close>, 1 for \<open>+\<close>), capturing or not, a literal
  character, or the end anchor \<open>$\<close>. The classes are those of Python's \<open>re\<close> for a text
  pattern compiled without flags: \<open>.\<close> is any character but the line feed, \<open>\s\<close> the white
  space and \<open>\d\<close> the decimal digits.
\<close>

datatype cls = Dot | Space | Digit

fun in_cls :: "cls \<Rightarrow> nat \<Rightarrow> bool" where
  "in_cls Dot c = (c \<noteq> 10)"
| "in_cls Space c = py_isspace c"
| "in_cls Digit c = (decimal_value c \<noteq> None)"

datatype item = Rep cls nat bool | Lit nat | Eol

text \<open>
  A greedy repetition is matched as a backtracking matcher does: take one more character
  of the class when the rest of the pattern then matches, otherwise stop here (when the
  least count is reached) and let the rest of the pattern continue. The result is the
  consumed text with what the continuation returns.
\<close>

fun greedy :: "(nat \<Rightarrow> bool) \<Rightarrow> nat \<Rightarrow> (ustring \<Rightarrow> 'r option) \<Rightarrow> ustring
    \<Rightarrow> (ustring \<times> 'r) option" where
  "greedy p mn cont [] = (if mn = 0 then map_option (Pair []) (cont []) else None)"
| "greedy p mn cont (x # xs) =
     (case (if p x then greedy p (mn - 1) cont xs else None) of
        Some (g, res) \<Rightarrow> Some (x # g, res)
      | None \<Rightarrow> if mn = 0 then map_option (Pair []) (cont (x # xs)) else None)"

text \<open>
  \<open>match_here p s\<close> matches the items \<open>p\<close> at the head of \<open>s\<close> and returns the text left
  after the match with the captured groups in order. \<open>$\<close> holds at the end of the text and
  just before a line feed that ends the text.
\<close>

primrec match_here :: "item list \<Rightarrow> ustring \<Rightarrow> (ustring \<times> ustring list) option" where
  "match_here [] = (\<lambda>s. Some (s, []))"
| "match_here (it # r) = (\<lambda>s. case it of
      Lit c \<Rightarrow> (case s of [] \<Rightarrow> None | x # xs \<Rightarrow> if x = c then match_here r xs else None)
    | Eol \<Rightarrow> if s = [] \<or> s = [10] then match_here r s else None
    | Rep c mn cap \<Rightarrow>
        (case greedy (in_cls c) mn (match_here r) s of
           None \<Rightarrow> None
         | Some (g, rest, gs) \<Rightarrow> Some (rest, if cap then g # gs else gs)))"

text \<open>\<open>re.search\<close>: the match at the leftmost position where there is one.\<close>

fun re_search :: "item list \<Rightarrow> ustring \<Rightarrow> (ustring \<times> ustring list) option" where
  "re_search p [] = match_here p []"
| "re_search p (x # xs) =
     (case match_here p (x # xs) of Some r \<Rightarrow> Some r | None \<Rightarrow> re_search p xs)"

section \<open>Series detection\<close>

text \<open>
  \<^verbatim>\<open>
  if title.endswith(kwon):
      series = re.search(u'(.*)\s*(\d+)' + kwon, title)
  else:
      series = re.search(u'(.*)\s*(\d+)' + hwa, title)
  if series:
      mi.series = series.group(1)
      mi.series_index = float(series.group(2))
  \<close>
  \<open>float\<close> of a group of decimal digits is its decimal value (exactly, below \<open>2 ^ 53\<close>);
  the index is kept as that natural number.
\<close>

definition series_pattern :: "nat \<Rightarrow> item list" where
  "series_pattern marker = [Rep Dot 0 True, Rep Space 0 False, Rep Digit 1 True, Lit marker]"

definition dec_value :: "ustring \<Rightarrow> nat" where
  "dec_value ds =
     foldl (\<lambda>a c. 10 * a + (case decimal_value c of None \<Rightarrow> 0 | Some d \<Rightarrow> d)) 0 ds"

definition detect_series :: "ustring \<Rightarrow> (ustring \<times> nat) option" where
  "detect_series title =
     (let series = (if suffix [kwon] title then re_search (series_pattern kwon) title
                    else re_search (series_pattern hwa) title)
      in case series of
           Some (_, [g1, g2]) \<Rightarrow> Some (g1, dec_value g2)
         | _ \<Rightarrow> None)"

section \<open>The tag mapper\<close>

text \<open>
  \<open>str.lower\<close> is a parameter \<open>lower\<close> of the mapper. \<open>ascii_lower\<close>, which lowers the ASCII
  capitals and agrees with \<open>str.lower\<close> on ASCII text, instantiates it in the evaluations.
\<close>

definition ascii_lower :: "ustring \<Rightarrow> ustring" where
  "ascii_lower s = map (\<lambda>c. if 65 \<le> c \<and> c \<le> 90 then c + 32 else c) s"

text \<open>
  \<^verbatim>\<open>
  def _convert_genres_to_calibre_tags(self, genre_tags):
      calibre_tag_lookup = cfg.plugin_prefs[cfg.STORE_NAME][cfg.KEY_GENRE_MAPPINGS]
      calibre_tag_map = dict((k.lower(),v) for (k,v) in calibre_tag_lookup.items())
      tags_to_add = list()
      for genre_tag in genre_tags:
          tags = calibre_tag_map.get(genre_tag.lower(), None)
          if tags:
              for tag in tags:
                  if tag not in tags_to_add:
                      tags_to_add.append(tag)
          else:
              if genre_tag not in tags_to_add:
                  tags_to_add.append(genre_tag)
      return list(tags_to_add)
  \<close>
  The configured lookup is given as its items, in iteration order; in the dictionary built
  from them a later item replaces an earlier one with the same lowered key. \<open>if tags:\<close> is
  false for a missing key and for an empty list alike.
\<close>

definition calibre_tag_map :: "(ustring \<Rightarrow> ustring) \<Rightarrow> (ustring \<times> ustring list) list
    \<Rightarrow> (ustring \<rightharpoonup> ustring list)" where
  "calibre_tag_map lower calibre_tag_lookup =
     fold (\<lambda>(k, v) m. m(lower k \<mapsto> v)) calibre_tag_lookup Map.empty"

definition append_new :: "ustring \<Rightarrow> ustring list \<Rightarrow> ustring list" where
  "append_new tag tags_to_add =
     (if tag \<in> set tags_to_add then tags_to_add else tags_to_add @ [tag])"

definition convert_step :: "(ustring \<Rightarrow> ustring) \<Rightarrow> (ustring \<rightharpoonup> ustring list)
    \<Rightarrow> ustring \<Rightarrow> ustring list \<Rightarrow> ustring list" where
  "convert_step lower m genre_tag tags_to_add =
     (case m (lower genre_tag) of
        None \<Rightarrow> append_new genre_tag tags_to_add
      | Some tags \<Rightarrow>
          if tags \<noteq> [] then fold append_new tags tags_to_add
          else append_new genre_tag tags_to_add)"

definition convert_genres_to_calibre_tags :: "(ustring \<Rightarrow> ustring)
    \<Rightarrow> (ustring \<times> ustring list) list \<Rightarrow> ustring list \<Rightarrow> ustring list" where
  "convert_genres_to_calibre_tags lower calibre_tag_lookup genre_tags =
     fold (convert_step lower (calibre_tag_map lower calibre_tag_lookup)) genre_tags []"

text \<open>
  The mapper as the specification words it: every raw tag stands for a sequence of tags,
  the sequences are concatenated in order and each tag is kept where it is first seen.
  \<open>expand_tag_spec\<close> is the specification's reading (a found key stands for its mapped
  sequence, whatever its length), \<open>expand_tag\<close> the one the code follows (a key mapped to
  the empty sequence counts as not found).
\<close>

fun first_seen :: "'a list \<Rightarrow> 'a list" where
  "first_seen [] = []"
| "first_seen (x # xs) = x # first_seen (removeAll x xs)"

definition expand_tag_spec :: "(ustring \<Rightarrow> ustring) \<Rightarrow> (ustring \<rightharpoonup> ustring list)
    \<Rightarrow> ustring \<Rightarrow> ustring list" where
  "expand_tag_spec lower m t = (case m (lower t) of Some cs \<Rightarrow> cs | None \<Rightarrow> [t])"

definition expand_tag :: "(ustring \<Rightarrow> ustring) \<Rightarrow> (ustring \<rightharpoonup> ustring list)
    \<Rightarrow> ustring \<Rightarrow> ustring list" where
  "expand_tag lower m t = (case m (lower t) of Some (c # cs) \<Rightarrow> c # cs | _ \<Rightarrow> [t])"

section \<open>Errors and the string methods the worker calls\<close>

text \<open>
  Every exception the worker can raise is a value; a computation that may raise returns
  \<open>error + 'a\<close>, with \<open>Inl\<close> for the exception.
\<close>

datatype error = IndexError | KeyError | TypeError | ValueError | AttributeError
  | OverflowError | UnboundLocalError

definition ebind :: "error + 'a \<Rightarrow> ('a \<Rightarrow> error + 'b) \<Rightarrow> error + 'b" where
  "ebind r f = (case r of Inl e \<Rightarrow> Inl e | Inr a \<Rightarrow> f a)"

text \<open>
  \<open>s.split(sep)\<close> for a non-empty separator: the pieces of \<open>s\<close> between the occurrences of
  \<open>sep\<close>, found from the left without overlap; there is always at least one piece. Every
  call of the worker has a literal, non-empty separator (Python raises on an empty one,
  which no call can reach).
\<close>

function py_split :: "ustring \<Rightarrow> ustring \<Rightarrow> ustring list" where
  "py_split sep [] = [[]]"
| "py_split sep (c # cs) =
     (if sep \<noteq> [] \<and> prefix sep (c # cs)
      then [] # py_split sep (drop (length sep) (c # cs))
      else (case py_split sep cs of t # ts \<Rightarrow> (c # t) # ts | [] \<Rightarrow> [[c]]))"
  by pat_completeness auto
termination
  by (relation "measure (\<lambda>(sep, s). length s)") auto

text \<open>\<open>s.replace(old, new)\<close> for a non-empty \<open>old\<close>: every occurrence, from the left.\<close>

function py_replace :: "ustring \<Rightarrow> ustring \<Rightarrow> ustring \<Rightarrow> ustring" where
  "py_replace old new [] = []"
| "py_replace old new (c # cs) =
     (if old \<noteq> [] \<and> prefix old (c # cs)
      then new @ py_replace old new (drop (length old) (c # cs))
      else c # py_replace old new cs)"
  by pat_completeness auto
termination
  by (relation "measure (\<lambda>(old, new, s). length s)") auto

text \<open>\<open>s.strip()\<close> removes the white space at both ends.\<close>

definition py_strip :: "ustring \<Rightarrow> ustring" where
  "py_strip s = rev (dropWhile py_isspace (rev (dropWhile py_isspace s)))"

section \<open>The text normalisers of \<open>load_details\<close>\<close>

text \<open>
  \<^verbatim>\<open>
  def _format_item(str):
      return re.sub('^"(.*)"$', '\\1', unescape(str))
  \<close>
  \<open>unescape\<close> (of \<open>calibre.utils.cleantext\<close>, which decodes HTML entities) is a parameter.
  The pattern starts with \<open>^\<close> and is compiled without flags, so the only match \<open>re.sub\<close>
  can replace starts at index 0: the text matched there is replaced by its group, and
  what follows the match is kept.
\<close>

definition quoted_pattern :: "item list" where
  "quoted_pattern = [Lit 34, Rep Dot 0 True, Lit 34, Eol]"

definition re_sub_quoted :: "ustring \<Rightarrow> ustring" where
  "re_sub_quoted s =
     (case match_here quoted_pattern s of
        Some (rest, [g]) \<Rightarrow> g @ rest
      | _ \<Rightarrow> s)"

definition format_item :: "(ustring \<Rightarrow> ustring) \<Rightarrow> ustring \<Rightarrow> ustring" where
  "format_item unescape str = re_sub_quoted (unescape str)"

text \<open>
  A decoder that knows the entity \<open>&quot;\<close> only; it agrees with \<open>unescape\<close> on text with
  no other entity and instantiates the parameter in the evaluations.
\<close>

definition unescape_quot :: "ustring \<Rightarrow> ustring" where
  "unescape_quot s = py_replace (ustr ''&quot;'') [34] s"

text \<open>
  Stripping one layer of surrounding double quotes, written without the pattern: the text
  between a leading and a closing quote when it holds no line feed, the closing quote
  being the last character or the last before a final line feed (which stays).
\<close>

definition strip_quotes :: "ustring \<Rightarrow> ustring" where
  "strip_quotes s =
     (case s of
        [] \<Rightarrow> s
      | q # r \<Rightarrow>
          if q = 34 \<and> r \<noteq> [] \<and> last r = 34 \<and> 10 \<notin> set (butlast r) then butlast r
          else if q = 34 \<and> 2 \<le> length r \<and> last r = 10 \<and> last (butlast r) = 34
                  \<and> 10 \<notin> set (butlast (butlast r))
               then butlast (butlast r) @ [10]
          else s)"

text \<open>
  \<^verbatim>\<open>
  def _format_list(str):
      return [_.strip() for _ in _format_item(str).split(',')]
  \<close>
\<close>

definition format_list :: "(ustring \<Rightarrow> ustring) \<Rightarrow> ustring \<Rightarrow> ustring list" where
  "format_list unescape str = map py_strip (py_split [44] (format_item unescape str))"

text \<open>
  \<^verbatim>\<open>
  def _find_meta(node, property):
      return [_.get('content') for _ in node if _.get('property') == property][0]
  \<close>
  A meta node has its \<open>property\<close> attribute (the query that selects the nodes asks for it)
  and may have a \<open>content\<close> attribute.
\<close>

record meta_entry =
  property :: ustring
  content :: "ustring option"

definition find_meta :: "meta_entry list \<Rightarrow> ustring \<Rightarrow> error + ustring option" where
  "find_meta node p =
     (case map content (filter (\<lambda>e. property e = p) node) of
        [] \<Rightarrow> Inl IndexError
      | c # _ \<Rightarrow> Inr c)"

section \<open>Dates\<close>

text \<open>
  \<open>int(s)\<close> on a text string, in Python 3: white space around the number is ignored, a
  sign may come first, and the rest is a run of decimal digits in which single
  underscores may stand between two digits. A literal of more than 4300 digits is
  refused (the default limit, since Python 3.11). Every refusal is a \<open>ValueError\<close>.
\<close>

fun no_double_underscore :: "ustring \<Rightarrow> bool" where
  "no_double_underscore (a # b # r) = (\<not> (a = 95 \<and> b = 95) \<and> no_double_underscore (b # r))"
| "no_double_underscore _ = True"

definition int_body_ok :: "ustring \<Rightarrow> bool" where
  "int_body_ok body =
     (body \<noteq> [] \<and> decimal_value (hd body) \<noteq> None \<and> decimal_value (last body) \<noteq> None
      \<and> list_all (\<lambda>c. decimal_value c \<noteq> None \<or> c = 95) body
      \<and> no_double_underscore body
      \<and> length (filter (\<lambda>c. c \<noteq> 95) body) \<le> 4300)"

definition py_int :: "ustring \<Rightarrow> error + int" where
  "py_int s =
     (let t = py_strip s;
          body = (case t of [] \<Rightarrow> [] | c # r \<Rightarrow> if c = 43 \<or> c = 45 then r else t);
          sgn = (case t of [] \<Rightarrow> 1 | c # r \<Rightarrow> if c = 45 then - 1 else (1::int))
      in if int_body_ok body
         then Inr (sgn * int (dec_value (filter (\<lambda>c. c \<noteq> 95) body)))
         else Inl ValueError)"

text \<open>
  \<open>datetime.datetime(year, month, day, tzinfo=utc_tz)\<close>: the arguments must fit a C
  \<open>int\<close>, the year lie in 1..9999, the month in 1..12 and the day in the month. The time
  of day is midnight and is left out of the record.
\<close>

datatype tzinfo = UTC

record datetime =
  year :: int
  month :: int
  day :: int
  tz :: tzinfo

definition is_leap :: "int \<Rightarrow> bool" where
  "is_leap y = (y mod 4 = 0 \<and> (y mod 100 \<noteq> 0 \<or> y mod 400 = 0))"

definition days_in_month :: "int \<Rightarrow> int \<Rightarrow> int" where
  "days_in_month y m =
     (if m = 2 then (if is_leap y then 29 else 28)
      else if m = 4 \<or> m = 6 \<or> m = 9 \<or> m = 11 then 30 else 31)"

definition fits_c_int :: "int \<Rightarrow> bool" where
  "fits_c_int v = (- 2147483648 \<le> v \<and> v \<le> 2147483647)"

definition valid_date :: "int \<Rightarrow> int \<Rightarrow> int \<Rightarrow> bool" where
  "valid_date y m d = (1 \<le> y \<and> y \<le> 9999 \<and> 1 \<le> m \<and> m \<le> 12 \<and> 1 \<le> d \<and> d \<le> days_in_month y m)"

definition mk_datetime :: "int \<Rightarrow> int \<Rightarrow> int \<Rightarrow> error + datetime" where
  "mk_datetime y m d =
     (if \<not> (fits_c_int y \<and> fits_c_int m \<and> fits_c_int d) then Inl OverflowError
      else if valid_date y m d then Inr \<lparr>year = y, month = m, day = d, tz = UTC\<rparr>
      else Inl ValueError)"

text \<open>
  \<^verbatim>\<open>
  def _format_date(date_text):
      year = int(date_text[0:4])
      month = int(date_text[4:6])
      day = int(date_text[6:])
      return datetime.datetime(year, month, day, tzinfo=utc_tz)
  \<close>
\<close>

definition format_date :: "ustring \<Rightarrow> error + datetime" where
  "format_date date_text =
     ebind (py_int (take 4 date_text)) (\<lambda>y.
     ebind (py_int (take 2 (drop 4 date_text))) (\<lambda>m.
     ebind (py_int (drop 6 date_text)) (\<lambda>d.
     mk_datetime y m d)))"

section \<open>The source identifier\<close>

text \<open>
  \<^verbatim>\<open>
  x = url.split("/books/")
  y = x[1].split("?_")
  ridibooks_id = y[0]
  \<close>
  \<open>x[1]\<close> raises \<open>IndexError\<close> when the split has one piece; \<open>y[0]\<close> always exists.
\<close>

definition books_seg :: ustring where
  "books_seg = ustr ''/books/''"

definition query_delim :: ustring where
  "query_delim = ustr ''?_''"

definition ridibooks_id_of :: "ustring \<Rightarrow> error + ustring" where
  "ridibooks_id_of url =
     (case py_split books_seg url of
        _ # x1 # _ \<Rightarrow> Inr (hd (py_split query_delim x1))
      | _ \<Rightarrow> Inl IndexError)"

text \<open>
  The same in the words of the specification: the text after the first occurrence of a
  delimiter, and the text before the first occurrence of a delimiter.
\<close>

fun after_first :: "ustring \<Rightarrow> ustring \<Rightarrow> ustring option" where
  "after_first d [] = None"
| "after_first d (c # cs) =
     (if prefix d (c # cs) then Some (drop (length d) (c # cs)) else after_first d cs)"


section \<open>The decoded JSON document\<close>

text \<open>
  \<open>json.loads\<close> returns a Python value; an object is a dictionary, given as its items.
  Subscription with a string key works on a dictionary only, and \<open>key in value\<close> is the key
  test on a dictionary, the substring test on a string and the element test on a list.
\<close>

datatype json = JNull | JBool bool | JNum int | JStr ustring | JArr "json list"
  | JObj "(ustring \<times> json) list"

fun getitem :: "json \<Rightarrow> ustring \<Rightarrow> error + json" where
  "getitem (JObj kvs) k = (case map_of kvs k of None \<Rightarrow> Inl KeyError | Some v \<Rightarrow> Inr v)"
| "getitem _ k = Inl TypeError"

fun contains_key :: "json \<Rightarrow> ustring \<Rightarrow> error + bool" where
  "contains_key (JObj kvs) k = Inr (map_of kvs k \<noteq> None)"
| "contains_key (JStr s) k = Inr (sublist k s)"
| "contains_key (JArr xs) k = Inr (JStr k \<in> set xs)"
| "contains_key _ k = Inl TypeError"

text \<open>The text normalisers and the date parser need a string; another value raises.\<close>

fun as_text :: "json \<Rightarrow> error + ustring" where
  "as_text (JStr s) = Inr s"
| "as_text _ = Inl TypeError"

section \<open>The page, the record and the worker\<close>

text \<open>
  The fetched page is what the three queries of the worker select from it: the meta nodes
  whose property starts with \<open>og\<close> or \<open>books\<close>, the texts of the JSON-LD scripts of the head,
  and the genre containers, each with the texts of its nodes \<open>a[1]\<close> and of the links that
  follow an arrow icon.
\<close>

record genre_node =
  first_links :: "ustring list"
  sub_genres :: "ustring list"

record page =
  meta_nodes :: "meta_entry list"
  ld_json_texts :: "ustring list"
  genres_node :: "genre_node list"

text \<open>
  The \<open>Metadata\<close> object: \<open>Metadata(title, authors)\<close> sets two fields, the assignments of
  \<open>load_details\<close> set the others; \<open>None\<close> is a field not set (or set to \<open>None\<close>). The rating
  is a float, of a type \<open>'f\<close> left open.
\<close>

record 'f metadata =
  mi_title :: "ustring option"
  mi_authors :: "ustring list"
  mi_identifier :: "(ustring \<times> ustring) option"
  mi_cover_url :: "ustring option"
  mi_has_cover :: bool
  mi_publisher :: "ustring option"
  mi_pubdate :: "datetime option"
  mi_comments :: "ustring option"
  mi_rating :: "'f option"
  mi_tags :: "ustring list option"
  mi_series :: "ustring option"
  mi_series_index :: "nat option"
  mi_language :: "ustring option"
  mi_source_relevance :: "int option"

definition Metadata :: "ustring option \<Rightarrow> ustring list \<Rightarrow> 'f metadata" where
  "Metadata title authors =
     \<lparr>mi_title = title, mi_authors = authors, mi_identifier = None, mi_cover_url = None,
      mi_has_cover = False, mi_publisher = None, mi_pubdate = None, mi_comments = None,
      mi_rating = None, mi_tags = None, mi_series = None, mi_series_index = None,
      mi_language = None, mi_source_relevance = None\<rparr>"

text \<open>
  The worker with what it is given and what it calls: its URL and relevance, the outcome
  of the fetch (\<open>None\<close> when the session block raised), the library functions
  \<open>json.loads\<close> (\<open>None\<close> for \<open>ValueError\<close>), \<open>unescape\<close>, \<open>str.lower\<close> and \<open>float\<close> on a string
  (\<open>None\<close> for \<open>ValueError\<close>), the configured genre mappings and the cleanup hook of the
  plugin.
\<close>

record 'f worker =
  self_url :: ustring
  self_relevance :: int
  fetched_page :: "page option"
  lib_json_loads :: "ustring \<Rightarrow> json option"
  lib_unescape :: "ustring \<Rightarrow> ustring"
  lib_lower :: "ustring \<Rightarrow> ustring"
  lib_float :: "ustring \<Rightarrow> 'f option"
  cfg_genre_mappings :: "(ustring \<times> ustring list) list"
  plugin_clean :: "'f metadata \<Rightarrow> 'f metadata"

text \<open>What the worker does to the outside, in the order it does it.\<close>

datatype 'f event =
    LogFetchError
  | LogParsingTags
  | CacheIsbn ustring ustring
  | CacheCover ustring ustring
  | Clean "'f metadata"
  | Put "'f metadata"
  | LogFailed ustring

section \<open>The JSON-LD block\<close>

text \<open>
  \<^verbatim>\<open>
  ld = [_ for _ in ld_json if '"@type": "Book"' in _][0]
  ld = ld.replace('&lt;', '<')
  ld = ld.replace('&gt;', '>')
  ld = ld.replace('\&quot;', '\\"')
  ld = ld.replace('&quot;', '\\"')
  book_info = json.loads(ld)
  \<close>
\<close>

definition book_marker :: ustring where
  "book_marker = [34] @ ustr ''@type'' @ [34] @ ustr '': '' @ [34] @ ustr ''Book'' @ [34]"

definition select_ld :: "ustring list \<Rightarrow> error + ustring" where
  "select_ld ld_json =
     (case filter (sublist book_marker) ld_json of [] \<Rightarrow> Inl IndexError | ld # _ \<Rightarrow> Inr ld)"

definition repair_ld :: "ustring \<Rightarrow> ustring" where
  "repair_ld ld =
     py_replace (ustr ''&quot;'') [92, 34]
       (py_replace (92 # ustr ''&quot;'') [92, 34]
         (py_replace (ustr ''&gt;'') (ustr ''>'')
           (py_replace (ustr ''&lt;'') (ustr ''<'') ld)))"

definition load_book_info :: "(ustring \<Rightarrow> json option) \<Rightarrow> ustring list \<Rightarrow> error + json" where
  "load_book_info loads ld_json =
     ebind (select_ld ld_json) (\<lambda>ld.
       case loads (repair_ld ld) of None \<Rightarrow> Inl ValueError | Some book_info \<Rightarrow> Inr book_info)"

section \<open>Authors and translators\<close>

text \<open>
  \<^verbatim>\<open>
  authors = _format_list(book_info['author']['name'])
  if 'translator' in book_info:
      authors.extend([_ + translator_marker for _ in _format_list(book_info['translator']['name'])])
  \<close>
  The marker is \<open>(\<close>, U+C5ED, U+C790, \<open>)\<close>.
\<close>

definition translator_marker :: ustring where
  "translator_marker = [40, 50669, 51088, 41]"

definition book_authors :: "(ustring \<Rightarrow> ustring) \<Rightarrow> json \<Rightarrow> error + ustring list" where
  "book_authors unesc book_info =
     ebind (getitem book_info (ustr ''author'')) (\<lambda>a.
     ebind (getitem a (ustr ''name'')) (\<lambda>n.
     ebind (as_text n) (\<lambda>an.
     ebind (contains_key book_info (ustr ''translator'')) (\<lambda>has.
       if has then
         ebind (getitem book_info (ustr ''translator'')) (\<lambda>t.
         ebind (getitem t (ustr ''name'')) (\<lambda>m.
         ebind (as_text m) (\<lambda>tn.
           Inr (format_list unesc an @ map (\<lambda>x. x @ translator_marker) (format_list unesc tn)))))
       else Inr (format_list unesc an)))))"

section \<open>The fields of the record\<close>

text \<open>
  Lines 109 to 145 of \<open>load_details\<close>, in their order: the JSON-LD block, the identifier,
  the meta fields, the authors, then the record with its identifier, cover, publisher,
  date, comments and rating. The result is the identifier, the ISBN and the record so far.
\<close>

definition to_float :: "(ustring \<Rightarrow> 'f option) \<Rightarrow> ustring option \<Rightarrow> error + 'f" where
  "to_float flt x =
     (case x of
        None \<Rightarrow> Inl TypeError
      | Some s \<Rightarrow> (case flt s of None \<Rightarrow> Inl ValueError | Some v \<Rightarrow> Inr v))"

definition truthy :: "ustring option \<Rightarrow> bool" where
  "truthy x = (case x of None \<Rightarrow> False | Some s \<Rightarrow> s \<noteq> [])"

definition extract_fields :: "'f worker \<Rightarrow> page
    \<Rightarrow> error + (ustring \<times> ustring option \<times> 'f metadata)" where
  "extract_fields w root =
     (let meta = meta_nodes root in
      ebind (load_book_info (lib_json_loads w) (ld_json_texts root)) (\<lambda>book_info.
      ebind (ridibooks_id_of (self_url w)) (\<lambda>ridibooks_id.
      ebind (find_meta meta (ustr ''books:isbn'')) (\<lambda>isbn.
      ebind (find_meta meta (ustr ''og:image'')) (\<lambda>cover_url.
      ebind (find_meta meta (ustr ''og:title'')) (\<lambda>title.
      ebind (book_authors (lib_unescape w) book_info) (\<lambda>authors.
      ebind (ebind (getitem book_info (ustr ''publisher'')) (\<lambda>p.
             ebind (getitem p (ustr ''name'')) as_text)) (\<lambda>publisher.
      ebind (ebind (ebind (getitem book_info (ustr ''datePublished'')) as_text) format_date)
        (\<lambda>pubdate.
      ebind (ebind (getitem book_info (ustr ''description'')) as_text) (\<lambda>description.
      ebind (ebind (find_meta meta (ustr ''books:rating:normalized_value''))
               (to_float (lib_float w))) (\<lambda>rating.
        Inr (ridibooks_id, isbn,
          (Metadata title authors)
            \<lparr>mi_identifier := Some (ustr ''ridibooks'', ridibooks_id),
             mi_cover_url := cover_url,
             mi_has_cover := truthy cover_url,
             mi_publisher := Some (format_item (lib_unescape w) publisher),
             mi_pubdate := Some pubdate,
             mi_comments := Some (format_item (lib_unescape w) description),
             mi_rating := Some rating\<rparr>))))))))))))"

text \<open>
  \<^verbatim>\<open>
  if ridibooks_id:
      if isbn:
          self.plugin.cache_isbn_to_identifier(isbn, ridibooks_id)
      if cover_url:
          self.plugin.cache_identifier_to_cover_url(ridibooks_id, cover_url)
  \<close>
\<close>

definition cache_events :: "ustring \<Rightarrow> ustring option \<Rightarrow> ustring option \<Rightarrow> 'f event list" where
  "cache_events ridibooks_id isbn cover_url =
     (if ridibooks_id \<noteq> [] then
        (case isbn of
           None \<Rightarrow> []
         | Some i \<Rightarrow> if i \<noteq> [] then [CacheIsbn i ridibooks_id] else [])
        @ (case cover_url of
             None \<Rightarrow> []
           | Some c \<Rightarrow> if c \<noteq> [] then [CacheCover ridibooks_id c] else [])
      else [])"

section \<open>\<open>parse_tags\<close>\<close>

text \<open>
  \<^verbatim>\<open>
  if 'keywords' in book_info:
      keywords = book_info['keywords']
      keywords = keywords[1:len(keywords)-1]
      keywords_list = keywords.split("\", \"")
      all_tags = keywords_list
  \<close>
  A list of keywords can be sliced and has no \<open>split\<close>; the other values cannot be sliced.
\<close>

fun keywords_list :: "json \<Rightarrow> error + ustring list" where
  "keywords_list (JStr keywords) =
     Inr (py_split [34, 44, 32, 34] (drop 1 (take (length keywords - 1) keywords)))"
| "keywords_list (JArr xs) = Inl AttributeError"
| "keywords_list _ = Inl TypeError"

text \<open>
  \<^verbatim>\<open>
  genre_tags = list()
  added_main_genre = False
  for genre_node in genres_node:
      if not added_main_genre:
          main_genre_node = genre_node.xpath('a[1]')[0].text_content()
          genre_tags.append(main_genre_node)
          added_main_genre = True
      sub_genre_nodes = genre_node.xpath(...)
      genre_tags_list = [sgn.text_content().strip() for sgn in sub_genre_nodes]
      if genre_tags_list:
          genre_tags += genre_tags_list
  \<close>
\<close>

fun genre_loop :: "bool \<Rightarrow> genre_node list \<Rightarrow> ustring list \<Rightarrow> error + ustring list" where
  "genre_loop added_main_genre [] genre_tags = Inr genre_tags"
| "genre_loop added_main_genre (n # ns) genre_tags =
     ebind (if \<not> added_main_genre
            then (case first_links n of
                    [] \<Rightarrow> Inl IndexError
                  | main_genre_node # _ \<Rightarrow> Inr (genre_tags @ [main_genre_node]))
            else Inr genre_tags)
       (\<lambda>genre_tags. genre_loop True ns (genre_tags @ map py_strip (sub_genres n)))"

text \<open>
  The whole of \<open>parse_tags\<close> after its log line: the keywords, then the genres, mapped by
  \<open>_convert_genres_to_calibre_tags\<close>; the function returns nothing when no tag results.
\<close>

definition parse_tags :: "'f worker \<Rightarrow> page \<Rightarrow> error + ustring list option" where
  "parse_tags w root =
     ebind (load_book_info (lib_json_loads w) (ld_json_texts root)) (\<lambda>book_info.
     ebind (contains_key book_info (ustr ''keywords'')) (\<lambda>has.
     ebind (if has then ebind (getitem book_info (ustr ''keywords'')) keywords_list
            else Inr []) (\<lambda>all_tags.
     ebind (if genres_node root \<noteq> []
            then ebind (genre_loop False (genres_node root) []) (\<lambda>genre_tags.
                   Inr (if all_tags \<noteq> [] then all_tags @ genre_tags else genre_tags))
            else Inr all_tags) (\<lambda>all_tags.
       let calibre_tags =
             convert_genres_to_calibre_tags (lib_lower w) (cfg_genre_mappings w) all_tags
       in Inr (if length calibre_tags > 0 then Some calibre_tags else None)))))"

section \<open>\<open>load_details\<close> and \<open>run\<close>\<close>

text \<open>
  \<open>title.endswith\<close> needs a string: a title meta node without \<open>content\<close> gives \<open>None\<close>, and
  the call raises.
\<close>

definition series_of :: "ustring option \<Rightarrow> error + (ustring \<times> nat) option" where
  "series_of title = (case title of None \<Rightarrow> Inl AttributeError | Some t \<Rightarrow> Inr (detect_series t))"

definition finish :: "'f worker \<Rightarrow> 'f metadata \<Rightarrow> ustring list option \<Rightarrow> (ustring \<times> nat) option
    \<Rightarrow> 'f metadata" where
  "finish w mi tags series =
     mi\<lparr>mi_tags := tags,
        mi_series := map_option fst series,
        mi_series_index := map_option snd series,
        mi_language := Some (ustr ''Korean''),
        mi_source_relevance := Some (self_relevance w)\<rparr>"

text \<open>
  \<open>load_details\<close> returns its outcome with the events it caused. \<open>_get_book_page\<close> logs an
  exception of the session block and then reads the variable \<open>root\<close> that was never
  bound. The cache notifications come after the fields and before \<open>parse_tags\<close>, which
  logs a line first; the cleanup hook and the queue come last.
\<close>

definition load_details :: "'f worker \<Rightarrow> (error + unit) \<times> 'f event list" where
  "load_details w =
     (case fetched_page w of
        None \<Rightarrow> (Inl UnboundLocalError, [LogFetchError])
      | Some root \<Rightarrow>
          (case extract_fields w root of
             Inl e \<Rightarrow> (Inl e, [])
           | Inr (ridibooks_id, isbn, mi) \<Rightarrow>
               (let notified = cache_events ridibooks_id isbn (mi_cover_url mi) in
                case parse_tags w root of
                  Inl e \<Rightarrow> (Inl e, notified @ [LogParsingTags])
                | Inr tags \<Rightarrow>
                    (case series_of (mi_title mi) of
                       Inl e \<Rightarrow> (Inl e, notified @ [LogParsingTags])
                     | Inr series \<Rightarrow>
                         (Inr (),
                          notified @ [LogParsingTags, Clean (finish w mi tags series),
                            Put (plugin_clean w (finish w mi tags series))])))))"

text \<open>
  \<^verbatim>\<open>
  def run(self):
      try:
          self.load_details(self.url, self.timeout)
      except:
          self.log.exception('get_details failed for url: %r'%self.url)
  \<close>
\<close>

definition run :: "'f worker \<Rightarrow> 'f event list" where
  "run w =
     (case load_details w of
        (Inl e, events) \<Rightarrow> events @ [LogFailed (self_url w)]
      | (Inr u, events) \<Rightarrow> events)"

text \<open>The records on the result queue, and the events that are no log lines.\<close>

fun published :: "'f event list \<Rightarrow> 'f metadata list" where
  "published [] = []"
| "published (Put mi # evs) = mi # published evs"
| "published (_ # evs) = published evs"

fun is_log :: "'f event \<Rightarrow> bool" where
  "is_log LogFetchError = True"
| "is_log LogParsingTags = True"
| "is_log (LogFailed u) = True"
| "is_log _ = False"

definition effects :: "'f event list \<Rightarrow> 'f event list" where
  "effects evs = filter (\<lambda>ev. \<not> is_log ev) evs"

text \<open>A record is populated when every field that \<open>load_details\<close> always sets is set.\<close>

definition populated :: "'f metadata \<Rightarrow> bool" where
  "populated mi =
     (mi_authors mi \<noteq> [] \<and> mi_identifier mi \<noteq> None \<and> mi_publisher mi \<noteq> None
      \<and> mi_pubdate mi \<noteq> None \<and> mi_comments mi \<noteq> None \<and> mi_rating mi \<noteq> None
      \<and> mi_language mi \<noteq> None \<and> mi_source_relevance mi \<noteq> None)"

section \<open>A sample page\<close>

text \<open>
  A page of a translated book with one genre container, a decoder that returns its Book
  record whatever the text, and a worker on it; the float of a rating is kept as its
  literal. The variants drop the JSON-LD block, or the link of the genre container.
\<close>

definition sample_book_info :: json where
  "sample_book_info = JObj
     [(ustr ''author'', JObj [(ustr ''name'', JStr (ustr ''Kim, Lee''))]),
      (ustr ''translator'', JObj [(ustr ''name'', JStr (ustr ''Park''))]),
      (ustr ''publisher'', JObj [(ustr ''name'', JStr (ustr ''Ridi''))]),
      (ustr ''datePublished'', JStr (ustr ''20200229'')),
      (ustr ''description'', JStr (ustr ''A tale''))]"

definition sample_page :: page where
  "sample_page =
     \<lparr>meta_nodes =
        [\<lparr>property = ustr ''books:isbn'', content = Some (ustr ''9781234567897'')\<rparr>,
         \<lparr>property = ustr ''og:image'', content = Some (ustr ''c.jpg'')\<rparr>,
         \<lparr>property = ustr ''og:title'', content = Some (ustr ''Tale'')\<rparr>,
         \<lparr>property = ustr ''books:rating:normalized_value'', content = Some (ustr ''0.8'')\<rparr>],
      ld_json_texts = [book_marker],
      genres_node = [\<lparr>first_links = [ustr ''Novel''], sub_genres = [ustr '' Fantasy '']\<rparr>]\<rparr>"

definition sample_worker :: "page option \<Rightarrow> ustring worker" where
  "sample_worker fetched =
     \<lparr>self_url = ustr ''https://ridibooks.com/books/987654?_s=search'',
      self_relevance = 0,
      fetched_page = fetched,
      lib_json_loads = (\<lambda>ld. Some sample_book_info),
      lib_unescape = unescape_quot,
      lib_lower = ascii_lower,
      lib_float = Some,
      cfg_genre_mappings = [(ustr ''fantasy'', [ustr ''Fantasy & SF''])],
      plugin_clean = (\<lambda>mi. mi)\<rparr>"

definition no_link_page :: page where
  "no_link_page = sample_page\<lparr>genres_node := [\<lparr>first_links = [], sub_genres = []\<rparr>]\<rparr>"

definition sample_record :: "ustring metadata" where
  "sample_record =
     \<lparr>mi_title = Some (ustr ''Tale''),
      mi_authors = [ustr ''Kim'', ustr ''Lee'', ustr ''Park'' @ translator_marker],
      mi_identifier = Some (ustr ''ridibooks'', ustr ''987654''),
      mi_cover_url = Some (ustr ''c.jpg''), mi_has_cover = True,
      mi_publisher = Some (ustr ''Ridi''),
      mi_pubdate = Some \<lparr>year = 2020, month = 2, day = 29, tz = UTC\<rparr>,
      mi_comments = Some (ustr ''A tale''), mi_rating = Some (ustr ''0.8''),
      mi_tags = Some [ustr ''Novel'', ustr ''Fantasy & SF''],
      mi_series = None, mi_series_index = None,
      mi_language = Some (ustr ''Korean''), mi_source_relevance = Some 0\<rparr>"

section \<open>Decimal digits\<close>

lemma decimal_value_ascii:
  "c < 1632 \<Longrightarrow> decimal_value c = (if 48 \<le> c \<and> c \<le> 57 then Some (c - 48) else None)"
  by (simp add: decimal_value_def nd_zeros_def)

lemma decimal_value_is_digit: "is_digit c \<Longrightarrow> decimal_value c = Some (c - 48)"
  by (simp add: decimal_value_ascii is_digit_def)

lemma decimal_value_kwon: "decimal_value 44428 = None"
  by (simp add: decimal_value_def nd_zeros_def)

lemma decimal_value_hwa: "decimal_value 54868 = None"
  by (simp add: decimal_value_def nd_zeros_def)

section \<open>Series detection on the titles of the specification\<close>

lemma series_mystery_3:
  "detect_series (ustr ''Mystery Series 3'' @ [kwon]) = Some (ustr ''Mystery Series '', 3)"
  by (simp add: detect_series_def series_pattern_def dec_value_def ustr_def kwon_def hwa_def
      suffix_to_prefix py_isspace_def decimal_value_ascii decimal_value_kwon decimal_value_hwa)

text \<open>A decimal digit beyond ASCII is a digit of the pattern: U+FF13 is a three.\<close>

lemma series_fullwidth_digit:
  "detect_series (ustr ''Tale '' @ [65299, kwon]) = Some (ustr ''Tale '', 3)"
  by (simp add: detect_series_def series_pattern_def dec_value_def ustr_def kwon_def hwa_def
      suffix_to_prefix py_isspace_def decimal_value_def nd_zeros_def)

lemma series_no_suffix: "detect_series (ustr ''Plain Title'') = None"
  by (simp add: detect_series_def series_pattern_def dec_value_def ustr_def kwon_def hwa_def
      suffix_to_prefix py_isspace_def decimal_value_ascii decimal_value_kwon decimal_value_hwa)

text \<open>
  C1. The title "Action Tales 12" followed by the episode suffix: the greedy first group
  takes every character up to the last digit, so the code reports the series
  "Action Tales 1" with index 2, where the specification expects "Action Tales" and 12.
\<close>

theorem series_action_tales_12:
  "detect_series (ustr ''Action Tales 12'' @ [hwa]) = Some (ustr ''Action Tales 1'', 2)"
  by (simp add: detect_series_def series_pattern_def dec_value_def ustr_def kwon_def hwa_def
      suffix_to_prefix py_isspace_def decimal_value_ascii decimal_value_kwon decimal_value_hwa)

section \<open>The tag mapper keeps first-seen order\<close>

lemma set_first_seen: "set (first_seen xs) = set xs"
  by (induction xs rule: first_seen.induct) auto

lemma distinct_first_seen: "distinct (first_seen xs)"
  by (induction xs rule: first_seen.induct) (auto simp: set_first_seen)

lemma fold_append_new:
  "fold append_new ys out = out @ first_seen (filter (\<lambda>y. y \<notin> set out) ys)"
proof (induction ys arbitrary: out)
  case Nil
  then show ?case by simp
next
  case (Cons y ys)
  show ?case
  proof (cases "y \<in> set out")
    case True
    then show ?thesis using Cons.IH [of out] by (simp add: append_new_def)
  next
    case False
    have "removeAll y (filter (\<lambda>z. z \<notin> set out) ys) = filter (\<lambda>z. z \<notin> set (out @ [y])) ys"
      by (induction ys) auto
    then show ?thesis using False Cons.IH [of "out @ [y]"] by (simp add: append_new_def)
  qed
qed

lemma convert_step_expand:
  "convert_step lower m t out = fold append_new (expand_tag lower m t) out"
  by (simp add: convert_step_def expand_tag_def split: option.splits list.splits)

lemma fold_convert_step:
  "fold (convert_step lower m) ts out
     = fold append_new (concat (map (expand_tag lower m) ts)) out"
  by (induction ts arbitrary: out) (simp_all add: convert_step_expand)

text \<open>
  C2, as the specification states it, fails: with the lookup \<open>{"drama": []}\<close> the tags
  \<open>["Drama", "Other"]\<close> are mapped to \<open>["Drama", "Other"]\<close> by the code, and to \<open>["Other"]\<close>
  by the rule "if found, append the mapped sequence; if not found, append the raw tag".
\<close>

theorem tag_mapper_spec_counterexample:
  "convert_genres_to_calibre_tags ascii_lower [(ustr ''drama'', [])]
     [ustr ''Drama'', ustr ''Other'']
   \<noteq> first_seen (concat (map (expand_tag_spec ascii_lower
         (calibre_tag_map ascii_lower [(ustr ''drama'', [])]))
         [ustr ''Drama'', ustr ''Other'']))"
  by (simp add: convert_genres_to_calibre_tags_def convert_step_def append_new_def
      calibre_tag_map_def expand_tag_spec_def ascii_lower_def ustr_def)

text \<open>
  C2, amended. For every sequence of raw tags and every lookup, the mapper processes the
  tags in order: each raw tag is lowered and looked up; when it is found with a non-empty
  mapped sequence, every tag of that sequence not yet in the output is appended; when it
  is not found, or found with an empty sequence, the raw tag itself is appended if not yet
  in the output. So the output is the concatenation of the expansions with each tag kept
  where it is first seen, and it has no duplicates.
\<close>

theorem tag_mapper_first_seen:
  "convert_genres_to_calibre_tags lower lookup genre_tags =
     first_seen (concat (map (expand_tag lower (calibre_tag_map lower lookup)) genre_tags))
   \<and> distinct (convert_genres_to_calibre_tags lower lookup genre_tags)"
  by (simp add: convert_genres_to_calibre_tags_def fold_convert_step fold_append_new
      distinct_first_seen)

text \<open>The example of the specification: the second "fantasy" adds nothing, "SciFi" passes.\<close>

theorem tag_mapper_first_seen_witness:
  "convert_genres_to_calibre_tags ascii_lower [(ustr ''fantasy'', [ustr ''Fantasy & SF''])]
     [ustr ''Fantasy'', ustr ''fantasy'', ustr ''SciFi'']
   = [ustr ''Fantasy & SF'', ustr ''SciFi'']"
  using tag_mapper_first_seen [of ascii_lower "[(ustr ''fantasy'', [ustr ''Fantasy & SF''])]"
      "[ustr ''Fantasy'', ustr ''fantasy'', ustr ''SciFi'']"]
  by (simp add: calibre_tag_map_def expand_tag_def ascii_lower_def ustr_def)

text \<open>
  C8, as stated, fails: "Fantasy" is found in the lookup \<open>{"fantasy": []}\<close> with an empty
  sequence, and the mapper returns \<open>["Fantasy"]\<close>: the tag is not dropped.
\<close>

theorem empty_mapping_dropped_counterexample:
  "calibre_tag_map ascii_lower [(ustr ''fantasy'', [])] (ascii_lower (ustr ''Fantasy'')) = Some []
   \<and> convert_genres_to_calibre_tags ascii_lower [(ustr ''fantasy'', [])] [ustr ''Fantasy'']
     = [ustr ''Fantasy'']"
  by (simp add: convert_genres_to_calibre_tags_def convert_step_def append_new_def
      calibre_tag_map_def ascii_lower_def ustr_def)

text \<open>
  C8, amended. A raw tag whose lowered form is in the lookup with an empty sequence is
  treated as a tag that is not in the lookup: the raw tag is appended to the output
  unless it is there already.
\<close>

theorem empty_mapping_passes_through:
  "calibre_tag_map lower lookup (lower t) = Some [] \<Longrightarrow>
   convert_genres_to_calibre_tags lower lookup (ts @ [t]) =
     (let out = convert_genres_to_calibre_tags lower lookup ts
      in if t \<in> set out then out else out @ [t])"
  by (simp add: convert_genres_to_calibre_tags_def convert_step_def append_new_def)

theorem empty_mapping_passes_through_witness:
  "calibre_tag_map ascii_lower [(ustr ''fantasy'', [])] (ascii_lower (ustr ''Fantasy'')) = Some []
   \<and> convert_genres_to_calibre_tags ascii_lower [(ustr ''fantasy'', [])]
       ([ustr ''SciFi''] @ [ustr ''Fantasy''])
     = [ustr ''SciFi'', ustr ''Fantasy'']"
proof -
  have h: "calibre_tag_map ascii_lower [(ustr ''fantasy'', [])] (ascii_lower (ustr ''Fantasy''))
      = Some []"
    by (simp add: calibre_tag_map_def ascii_lower_def ustr_def)
  have "convert_genres_to_calibre_tags ascii_lower [(ustr ''fantasy'', [])] [ustr ''SciFi'']
      = [ustr ''SciFi'']"
    by (simp add: convert_genres_to_calibre_tags_def convert_step_def append_new_def
        calibre_tag_map_def ascii_lower_def ustr_def)
  then show ?thesis
    using h empty_mapping_passes_through [OF h, of "[ustr ''SciFi'']"]
    by (simp add: ustr_def)
qed

section \<open>\<open>_format_item\<close> decodes, then strips\<close>

lemma greedy_quote_last:
  "10 \<notin> set m \<Longrightarrow>
   greedy (in_cls Dot) 0 (match_here [Lit 34, Eol]) (m @ [34]) = Some (m, [], [])"
  by (induction m) auto

lemma greedy_quote_nl:
  "10 \<notin> set m \<Longrightarrow>
   greedy (in_cls Dot) 0 (match_here [Lit 34, Eol]) (m @ [34, 10]) = Some (m, [10], [])"
  by (induction m) auto

lemma greedy_quote_sound:
  "greedy (in_cls Dot) 0 (match_here [Lit 34, Eol]) r = Some (g, rest, gs) \<Longrightarrow>
   10 \<notin> set g \<and> r = g @ 34 # rest \<and> (rest = [] \<or> rest = [10]) \<and> gs = []"
proof (induction r arbitrary: g)
  case Nil
  then show ?case by simp
next
  case (Cons x xs)
  then show ?case
    by (auto split: if_splits option.splits list.splits)
qed

lemma re_sub_quoted_strip: "re_sub_quoted s = strip_quotes s"
proof (cases s)
  case Nil
  then show ?thesis by (simp add: re_sub_quoted_def strip_quotes_def quoted_pattern_def)
next
  case (Cons q r)
  show ?thesis
  proof (cases "q = 34")
    case False
    then show ?thesis using Cons
      by (simp add: re_sub_quoted_def strip_quotes_def quoted_pattern_def)
  next
    case q: True
    let ?G = "greedy (in_cls Dot) 0 (match_here [Lit 34, Eol]) r"
    have sub: "re_sub_quoted s = (case ?G of None \<Rightarrow> s | Some (g, rest, gs) \<Rightarrow>
        (case gs of [] \<Rightarrow> g @ rest | _ \<Rightarrow> s))"
      using Cons q
      by (simp add: re_sub_quoted_def quoted_pattern_def split: option.splits list.splits)
    consider (a) "r \<noteq> []" "last r = 34" "10 \<notin> set (butlast r)"
      | (b) "\<not> (r \<noteq> [] \<and> last r = 34 \<and> 10 \<notin> set (butlast r))"
          "2 \<le> length r" "last r = 10" "last (butlast r) = 34" "10 \<notin> set (butlast (butlast r))"
      | (c) "\<not> (r \<noteq> [] \<and> last r = 34 \<and> 10 \<notin> set (butlast r))"
          "\<not> (2 \<le> length r \<and> last r = 10 \<and> last (butlast r) = 34 \<and> 10 \<notin> set (butlast (butlast r)))"
      by blast
    then show ?thesis
    proof cases
      case a
      then have "r = butlast r @ [34]" by (metis append_butlast_last_id)
      then have "?G = Some (butlast r, [], [])"
        using greedy_quote_last [OF a(3)] by simp
      then show ?thesis using sub a Cons q by (simp add: strip_quotes_def)
    next
      case b
      then have r1: "r = butlast r @ [10]" by (metis append_butlast_last_id length_0_conv not_numeral_le_zero)
      from b have "butlast r \<noteq> []" by (cases r rule: rev_cases) auto
      then have "butlast r = butlast (butlast r) @ [34]" using b(4) by (metis append_butlast_last_id)
      then have "r = butlast (butlast r) @ [34, 10]" using r1 by (metis append.assoc append_Cons append_Nil)
      then have "?G = Some (butlast (butlast r), [10], [])"
        using greedy_quote_nl [OF b(5)] by simp
      then show ?thesis using sub b Cons q by (simp add: strip_quotes_def)
    next
      case c
      have "?G = None"
      proof (rule ccontr)
        assume "?G \<noteq> None"
        then obtain g rest gs where G: "?G = Some (g, rest, gs)" by (cases ?G) auto
        from greedy_quote_sound [OF G]
        have g: "10 \<notin> set g" and r: "r = g @ 34 # rest" and rest: "rest = [] \<or> rest = [10]"
          by auto
        from rest show False
        proof
          assume "rest = []"
          then have "r = g @ [34]" using r by simp
          then have "r \<noteq> [] \<and> last r = 34 \<and> butlast r = g" by simp
          then show False using c(1) g by simp
        next
          assume "rest = [10]"
          then have "r = (g @ [34]) @ [10]" using r by simp
          then have "2 \<le> length r \<and> last r = 10 \<and> butlast r = g @ [34]"
            by (simp del: append_assoc)
          then have "2 \<le> length r \<and> last r = 10 \<and> last (butlast r) = 34 \<and> butlast (butlast r) = g"
            by simp
          then show False using c(2) g by simp
        qed
      qed
      moreover have "strip_quotes s = s"
        unfolding strip_quotes_def Cons using c q by (simp only: list.case if_False simp_thms)
      ultimately show ?thesis using sub by simp
    qed
  qed
qed

text \<open>
  C6, amended. For every input string, \<open>_format_item\<close> first decodes the HTML entities
  and then strips one layer of surrounding double quotes from the decoded text (when no
  line feed lies between the quotes; a line feed that ends the text after the closing
  quote stays). Quotes that arrive entity-encoded are therefore stripped as well.
\<close>

theorem format_item_unescape_then_strip:
  "format_item unescape s = strip_quotes (unescape s)"
  by (simp add: format_item_def re_sub_quoted_strip)

theorem format_item_unescape_then_strip_witness:
  "format_item unescape_quot (ustr ''&quot;x&quot;'') = ustr ''x''"
  using format_item_unescape_then_strip [of unescape_quot "ustr ''&quot;x&quot;''"]
  by (simp add: unescape_quot_def strip_quotes_def ustr_def)

text \<open>
  C6, as stated, fails: on the input \<open>&quot;x&quot;\<close> the code returns \<open>x\<close>, where
  stripping first and decoding afterwards keeps the quotes.
\<close>

theorem strip_then_unescape_counterexample:
  "format_item unescape_quot (ustr ''&quot;x&quot;'') = ustr ''x''
   \<and> unescape_quot (strip_quotes (ustr ''&quot;x&quot;'')) = 34 # ustr ''x'' @ [34]"
  by (simp add: format_item_def re_sub_quoted_def quoted_pattern_def unescape_quot_def
      strip_quotes_def ustr_def)

section \<open>The source identifier is the token after the path segment\<close>

lemma py_split_not_Nil: "py_split sep s \<noteq> []"
  by (induction sep s rule: py_split.induct) (auto split: list.splits)




lemma after_first_Some:
  "after_first d s = Some post \<Longrightarrow> \<exists>pre. s = pre @ d @ post"
proof (induction s)
  case Nil
  then show ?case by simp
next
  case (Cons c cs)
  show ?case
  proof (cases "prefix d (c # cs)")
    case True
    then obtain r where r: "c # cs = d @ r" by (auto simp: prefix_def)
    from Cons.prems True have "post = drop (length d) (c # cs)" by simp
    then have "post = r" using r by simp
    then show ?thesis using r by (intro exI [of _ "[]"]) simp
  next
    case False
    then obtain pre where "cs = pre @ d @ post" using Cons by auto
    then show ?thesis by (intro exI [of _ "c # pre"]) simp
  qed
qed





section \<open>Meta fields: the first match, or an error\<close>

lemma find_meta_skip:
  "\<forall>x\<in>set pre. property x \<noteq> p \<Longrightarrow> find_meta (pre @ rest) p = find_meta rest p"
  by (induction pre) (auto simp: find_meta_def)

lemma find_meta_none:
  "(\<forall>x\<in>set node. property x \<noteq> p) \<longleftrightarrow> find_meta node p = Inl IndexError"
proof (cases "filter (\<lambda>e. property e = p) node")
  case Nil
  then show ?thesis by (simp add: find_meta_def filter_empty_conv)
next
  case (Cons z zs)
  then have "z \<in> set (filter (\<lambda>e. property e = p) node)" by simp
  then have "z \<in> set node \<and> property z = p" by simp
  then show ?thesis using Cons by (auto simp: find_meta_def)
qed

lemma find_meta_cases:
  "find_meta node p = Inl IndexError \<or> (\<exists>c. find_meta node p = Inr c)"
  by (cases "filter (\<lambda>e. property e = p) node") (simp_all add: find_meta_def)

text \<open>
  C9. For every list of meta entries and every property name, \<open>_find_meta\<close> returns the
  \<open>content\<close> attribute of the first entry with that property (with duplicates the first
  wins), and it raises \<open>IndexError\<close> exactly when no entry has the property: there is no
  default value.
\<close>

theorem find_meta_first_match:
  "(\<forall>pre e post. node = pre @ e # post \<and> (\<forall>x\<in>set pre. property x \<noteq> p) \<and> property e = p
      \<longrightarrow> find_meta node p = Inr (content e))
   \<and> ((\<forall>x\<in>set node. property x \<noteq> p) \<longleftrightarrow> find_meta node p = Inl IndexError)
   \<and> ((\<exists>x\<in>set node. property x = p) \<longleftrightarrow> (\<exists>c. find_meta node p = Inr c))"
proof (intro conjI allI impI)
  fix pre e post
  assume a: "node = pre @ e # post \<and> (\<forall>x\<in>set pre. property x \<noteq> p) \<and> property e = p"
  then have "find_meta node p = find_meta (e # post) p" by (simp add: find_meta_skip)
  then show "find_meta node p = Inr (content e)" using a by (simp add: find_meta_def)
next
  show "(\<forall>x\<in>set node. property x \<noteq> p) \<longleftrightarrow> find_meta node p = Inl IndexError"
    by (rule find_meta_none)
next
  show "(\<exists>x\<in>set node. property x = p) \<longleftrightarrow> (\<exists>c. find_meta node p = Inr c)"
    using find_meta_none [of node p] find_meta_cases [of node p] by auto
qed

theorem find_meta_first_match_witness:
  "find_meta [\<lparr>property = ustr ''og:image'', content = Some (ustr ''c.jpg'')\<rparr>,
              \<lparr>property = ustr ''og:title'', content = Some (ustr ''First'')\<rparr>,
              \<lparr>property = ustr ''og:title'', content = Some (ustr ''Second'')\<rparr>] (ustr ''og:title'')
     = Inr (Some (ustr ''First''))
   \<and> find_meta [\<lparr>property = ustr ''og:image'', content = Some (ustr ''c.jpg'')\<rparr>] (ustr ''og:title'')
     = Inl IndexError"
proof -
  let ?a = "\<lparr>property = ustr ''og:image'', content = Some (ustr ''c.jpg'')\<rparr>"
  let ?b = "\<lparr>property = ustr ''og:title'', content = Some (ustr ''First'')\<rparr>"
  let ?c = "\<lparr>property = ustr ''og:title'', content = Some (ustr ''Second'')\<rparr>"
  have h: "[?a, ?b, ?c] = [?a] @ ?b # [?c] \<and> (\<forall>x\<in>set [?a]. property x \<noteq> ustr ''og:title'')
      \<and> property ?b = ustr ''og:title''"
    by (simp add: ustr_def)
  have "find_meta [?a, ?b, ?c] (ustr ''og:title'') = Inr (content ?b)"
    using find_meta_first_match [of "[?a, ?b, ?c]" "ustr ''og:title''", THEN conjunct1,
        rule_format, of "[?a]" ?b "[?c]"] h by blast
  moreover have n: "\<forall>x\<in>set [?a]. property x \<noteq> ustr ''og:title''" by (simp add: ustr_def)
  have "find_meta [?a] (ustr ''og:title'') = Inl IndexError"
    using find_meta_first_match [of "[?a]" "ustr ''og:title''", THEN conjunct2, THEN conjunct1] n
    by blast
  ultimately show ?thesis by simp
qed

section \<open>\<open>_format_date\<close>\<close>

lemma dropWhile_keeps: "x \<in> set xs \<Longrightarrow> \<not> P x \<Longrightarrow> x \<in> set (dropWhile P xs)"
  by (induction xs) auto

lemma py_strip_keeps: "c \<in> set s \<Longrightarrow> \<not> py_isspace c \<Longrightarrow> c \<in> set (py_strip s)"
  by (simp add: py_strip_def dropWhile_keeps)

lemma py_int_bad_char:
  assumes "c \<in> set s" "\<not> py_isspace c" "decimal_value c = None" "c \<noteq> 43" "c \<noteq> 45"
    "c \<noteq> 95"
  shows "py_int s = Inl ValueError"
proof -
  have in_t: "c \<in> set (py_strip s)" using assms by (simp add: py_strip_keeps)
  then obtain h r where t: "py_strip s = h # r" by (cases "py_strip s") auto
  let ?b = "if h = 43 \<or> h = 45 then r else h # r"
  have cb: "c \<in> set ?b"
    using in_t t assms by auto
  have "\<not> list_all (\<lambda>c. decimal_value c \<noteq> None \<or> c = 95) ?b"
  proof
    assume "list_all (\<lambda>c. decimal_value c \<noteq> None \<or> c = 95) ?b"
    then have "decimal_value c \<noteq> None \<or> c = 95"
      using cb unfolding list_all_iff by blast
    then show False using assms(3,6) by simp
  qed
  then have "\<not> int_body_ok ?b"
    unfolding int_body_ok_def by blast
  then show ?thesis using t by (simp add: py_int_def Let_def)
qed

lemma py_int_Inl: "py_int s = Inl e \<Longrightarrow> e = ValueError"
  by (auto simp: py_int_def Let_def split: if_splits)

lemma digit_not_space: "is_digit c \<Longrightarrow> \<not> py_isspace c"
  by (auto simp: is_digit_def py_isspace_def)

lemma py_strip_digits: "list_all is_digit ds \<Longrightarrow> py_strip ds = ds"
proof -
  assume d: "list_all is_digit ds"
  have a: "\<And>xs. list_all is_digit xs \<Longrightarrow> dropWhile py_isspace xs = xs"
    by (case_tac xs) (auto simp: digit_not_space)
  have "list_all is_digit (rev ds)" using d by (simp add: list_all_iff)
  then show ?thesis using a [of ds] a [of "rev ds"] d by (simp add: py_strip_def)
qed

lemma no_double_underscore_free: "95 \<notin> set b \<Longrightarrow> no_double_underscore b"
  by (induction b rule: no_double_underscore.induct) auto

lemma int_body_ok_digits:
  assumes "ds \<noteq> []" "list_all is_digit ds" "length ds \<le> 4300"
  shows "int_body_ok ds" and "filter (\<lambda>c. c \<noteq> 95) ds = ds"
proof -
  have all: "\<forall>c\<in>set ds. is_digit c" using assms(2) by (simp add: list_all_iff)
  then have u: "95 \<notin> set ds" by (auto simp: is_digit_def)
  then show f: "filter (\<lambda>c. c \<noteq> 95) ds = ds" by (induction ds) auto
  have "hd ds \<in> set ds" "last ds \<in> set ds" using assms(1) by simp_all
  then have "decimal_value (hd ds) \<noteq> None" "decimal_value (last ds) \<noteq> None"
    using all by (simp_all add: decimal_value_is_digit)
  moreover have "list_all (\<lambda>c. decimal_value c \<noteq> None \<or> c = 95) ds"
    using all by (simp add: list_all_iff decimal_value_is_digit)
  ultimately show "int_body_ok ds"
    using assms(1,3) u f by (simp add: int_body_ok_def no_double_underscore_free)
qed

lemma py_int_digits:
  assumes "ds \<noteq> []" "list_all is_digit ds" "length ds \<le> 4300"
  shows "py_int ds = Inr (int (dec_value ds))"
proof -
  obtain h r where ds: "ds = h # r" using assms(1) by (cases ds) auto
  then have "is_digit h" using assms(2) by simp
  then have "h \<noteq> 43" "h \<noteq> 45" by (simp_all add: is_digit_def)
  then show ?thesis
    using ds int_body_ok_digits [OF assms] py_strip_digits [OF assms(2)]
    by (simp add: py_int_def Let_def)
qed

lemma py_int_empty: "py_int [] = Inl ValueError"
  by (simp add: py_int_def py_strip_def int_body_ok_def)

text \<open>
  An underscore between digits is read by \<open>int\<close>: the year of the eight characters
  \<open>2_200101\<close> is 220.
\<close>

lemma format_date_underscore:
  "format_date (ustr ''2_200101'') = Inr \<lparr>year = 220, month = 1, day = 1, tz = UTC\<rparr>"
  by (simp add: format_date_def ebind_def py_int_def py_strip_def py_isspace_def
      int_body_ok_def decimal_value_ascii dec_value_def mk_datetime_def fits_c_int_def
      valid_date_def days_in_month_def ustr_def)

text \<open>
  C5, amended. For every string of ASCII decimal digits, of seven characters or more,
  whose slices \<open>[0:4]\<close>, \<open>[4:6]\<close> and \<open>[6:]\<close> denote a date of the calendar (year 1 to
  9999), and so for every eight-digit \<open>YYYYMMDD\<close> string of such a date, \<open>_format_date\<close>
  returns the date with that year, month and day, at UTC: a string of seven digits, or
  of nine and more (up to the 4300 digits an integer literal may have), is not refused
  for its length. It raises \<open>ValueError\<close> for every string of fewer than seven characters
  and for every string that holds a character other than a decimal digit, a sign, an
  underscore or white space.
\<close>

theorem format_date_ymd:
  "(7 \<le> length s \<and> length s \<le> 4306 \<and> list_all is_digit s
      \<and> valid_date (int (dec_value (take 4 s))) (int (dec_value (take 2 (drop 4 s))))
            (int (dec_value (drop 6 s)))
    \<longrightarrow> format_date s = Inr \<lparr>year = int (dec_value (take 4 s)),
          month = int (dec_value (take 2 (drop 4 s))), day = int (dec_value (drop 6 s)), tz = UTC\<rparr>)
   \<and> (length s \<le> 6 \<longrightarrow> format_date s = Inl ValueError)
   \<and> ((\<exists>c\<in>set s. \<not> py_isspace c \<and> decimal_value c = None \<and> c \<noteq> 43 \<and> c \<noteq> 45 \<and> c \<noteq> 95)
        \<longrightarrow> format_date s = Inl ValueError)"
proof (intro conjI impI)
  assume a: "7 \<le> length s \<and> length s \<le> 4306 \<and> list_all is_digit s
      \<and> valid_date (int (dec_value (take 4 s))) (int (dec_value (take 2 (drop 4 s))))
            (int (dec_value (drop 6 s)))"
  let ?y = "take 4 s" and ?m = "take 2 (drop 4 s)" and ?d = "drop 6 s"
  have d: "list_all is_digit ?y" "list_all is_digit ?m" "list_all is_digit ?d"
    using a by (auto simp: list_all_iff dest: in_set_takeD in_set_dropD)
  have n: "?y \<noteq> []" "?m \<noteq> []" "?d \<noteq> []" using a by auto
  have l: "length ?y \<le> 4300" "length ?m \<le> 4300" "length ?d \<le> 4300" using a by auto
  have v: "valid_date (int (dec_value ?y)) (int (dec_value ?m)) (int (dec_value ?d))"
    using a by simp
  then have "fits_c_int (int (dec_value ?y))" "fits_c_int (int (dec_value ?m))"
    "fits_c_int (int (dec_value ?d))"
    by (auto simp: valid_date_def fits_c_int_def days_in_month_def split: if_splits)
  then show "format_date s = Inr \<lparr>year = int (dec_value ?y), month = int (dec_value ?m),
      day = int (dec_value ?d), tz = UTC\<rparr>"
    using v by (simp add: format_date_def ebind_def py_int_digits [OF n(1) d(1) l(1)]
        py_int_digits [OF n(2) d(2) l(2)] py_int_digits [OF n(3) d(3) l(3)] mk_datetime_def)
next
  assume "length s \<le> 6"
  then have "py_int (drop 6 s) = Inl ValueError" by (simp add: py_int_empty)
  then show "format_date s = Inl ValueError"
    by (auto simp: format_date_def ebind_def split: sum.splits dest: py_int_Inl)
next
  assume "\<exists>c\<in>set s. \<not> py_isspace c \<and> decimal_value c = None \<and> c \<noteq> 43 \<and> c \<noteq> 45 \<and> c \<noteq> 95"
  then obtain c where c: "c \<in> set s" "\<not> py_isspace c" "decimal_value c = None" "c \<noteq> 43"
    "c \<noteq> 45" "c \<noteq> 95"
    by blast
  have "s = take 4 s @ take 2 (drop 4 s) @ drop 6 s"
    using append_take_drop_id [of 4 s] append_take_drop_id [of 2 "drop 4 s"] by simp
  then have "c \<in> set (take 4 s) \<or> c \<in> set (take 2 (drop 4 s)) \<or> c \<in> set (drop 6 s)"
    using c(1) by (metis Un_iff set_append)
  then have "py_int (take 4 s) = Inl ValueError \<or> py_int (take 2 (drop 4 s)) = Inl ValueError
      \<or> py_int (drop 6 s) = Inl ValueError"
    using py_int_bad_char [OF _ c(2-6)] by blast
  then show "format_date s = Inl ValueError"
    by (auto simp: format_date_def ebind_def split: sum.splits dest: py_int_Inl)
qed

text \<open>A date of eight digits, one of seven, a string too short and one with letters.\<close>

theorem format_date_ymd_witness:
  "format_date (ustr ''20200229'') = Inr \<lparr>year = 2020, month = 2, day = 29, tz = UTC\<rparr>
   \<and> format_date (ustr ''2020011'') = Inr \<lparr>year = 2020, month = 1, day = 1, tz = UTC\<rparr>
   \<and> format_date (ustr ''2020'') = Inl ValueError
   \<and> format_date (ustr ''2020ab01'') = Inl ValueError"
proof -
  have v: "7 \<le> length (ustr ''20200229'') \<and> length (ustr ''20200229'') \<le> 4306
      \<and> list_all is_digit (ustr ''20200229'')
      \<and> valid_date (int (dec_value (take 4 (ustr ''20200229''))))
           (int (dec_value (take 2 (drop 4 (ustr ''20200229'')))))
           (int (dec_value (drop 6 (ustr ''20200229''))))"
    by (simp add: ustr_def is_digit_def dec_value_def decimal_value_ascii valid_date_def
        days_in_month_def is_leap_def)
  have w: "7 \<le> length (ustr ''2020011'') \<and> length (ustr ''2020011'') \<le> 4306
      \<and> list_all is_digit (ustr ''2020011'')
      \<and> valid_date (int (dec_value (take 4 (ustr ''2020011''))))
           (int (dec_value (take 2 (drop 4 (ustr ''2020011'')))))
           (int (dec_value (drop 6 (ustr ''2020011''))))"
    by (simp add: ustr_def is_digit_def dec_value_def decimal_value_ascii valid_date_def
        days_in_month_def is_leap_def)
  have b: "\<exists>c\<in>set (ustr ''2020ab01''). \<not> py_isspace c \<and> decimal_value c = None \<and> c \<noteq> 43
      \<and> c \<noteq> 45 \<and> c \<noteq> 95"
    by (simp add: ustr_def py_isspace_def decimal_value_ascii)
  have l: "length (ustr ''2020'') \<le> 6" by (simp add: ustr_def)
  have 1: "format_date (ustr ''20200229'') = Inr \<lparr>year = 2020, month = 2, day = 29, tz = UTC\<rparr>"
    using v format_date_ymd [of "ustr ''20200229''"]
    by (simp add: ustr_def dec_value_def decimal_value_ascii)
  have 2: "format_date (ustr ''2020011'') = Inr \<lparr>year = 2020, month = 1, day = 1, tz = UTC\<rparr>"
    using w format_date_ymd [of "ustr ''2020011''"]
    by (simp add: ustr_def dec_value_def decimal_value_ascii)
  have 3: "format_date (ustr ''2020'') = Inl ValueError"
    using l format_date_ymd [of "ustr ''2020''"] by blast
  have 4: "format_date (ustr ''2020ab01'') = Inl ValueError"
    using b format_date_ymd [of "ustr ''2020ab01''"] by blast
  show ?thesis using 1 2 3 4 by simp
qed

text \<open>
  C5, as stated, fails: a string of nine digits is no \<open>YYYYMMDD\<close> string, and the code
  reads it as a date (the day is everything from index 6 on).
\<close>

theorem format_date_length_counterexample:
  "length (ustr ''202001011'') = 9
   \<and> format_date (ustr ''202001011'') = Inr \<lparr>year = 2020, month = 1, day = 11, tz = UTC\<rparr>"
  by (simp add: format_date_def ebind_def py_int_def py_strip_def py_isspace_def
      int_body_ok_def decimal_value_ascii dec_value_def mk_datetime_def fits_c_int_def
      valid_date_def days_in_month_def ustr_def)

section \<open>The run of a worker\<close>


lemma ebind_Inr: "ebind r f = Inr b \<longleftrightarrow> (\<exists>a. r = Inr a \<and> f a = Inr b)"
  by (cases r) (simp_all add: ebind_def)

lemma format_list_not_Nil: "format_list u s \<noteq> []"
  by (simp add: format_list_def py_split_not_Nil)

lemma book_authors_not_Nil: "book_authors u book_info = Inr xs \<Longrightarrow> xs \<noteq> []"
  by (auto simp: book_authors_def ebind_Inr format_list_not_Nil split: if_splits)

lemma extract_fields_Inr:
  assumes "extract_fields w root = Inr (rid, isbn, mi)"
  shows "\<exists>book_info. load_book_info (lib_json_loads w) (ld_json_texts root) = Inr book_info
           \<and> book_authors (lib_unescape w) book_info = Inr (mi_authors mi)"
    and "mi_identifier mi = Some (ustr ''ridibooks'', rid)"
    and "mi_publisher mi \<noteq> None" and "mi_pubdate mi \<noteq> None" and "mi_comments mi \<noteq> None"
    and "mi_rating mi \<noteq> None"
  using assms
  by (auto simp: extract_fields_def Let_def ebind_Inr Metadata_def)

lemma finish_populated:
  assumes "extract_fields w root = Inr (rid, isbn, mi)"
  shows "populated (finish w mi tags series)"
  using extract_fields_Inr [OF assms] book_authors_not_Nil
  by (auto simp: populated_def finish_def)

lemma load_details_cases:
  obtains
    (fetch) "fetched_page w = None" "load_details w = (Inl UnboundLocalError, [LogFetchError])"
  | (fields) root e where "fetched_page w = Some root" "extract_fields w root = Inl e"
      "load_details w = (Inl e, [])"
  | (tags) root rid isbn mi e where "fetched_page w = Some root"
      "extract_fields w root = Inr (rid, isbn, mi)" "parse_tags w root = Inl e"
      "load_details w = (Inl e, cache_events rid isbn (mi_cover_url mi) @ [LogParsingTags])"
  | (series) root rid isbn mi tags e where "fetched_page w = Some root"
      "extract_fields w root = Inr (rid, isbn, mi)" "parse_tags w root = Inr tags"
      "series_of (mi_title mi) = Inl e"
      "load_details w = (Inl e, cache_events rid isbn (mi_cover_url mi) @ [LogParsingTags])"
  | (ok) root rid isbn mi tags series where "fetched_page w = Some root"
      "extract_fields w root = Inr (rid, isbn, mi)" "parse_tags w root = Inr tags"
      "series_of (mi_title mi) = Inr series"
      "load_details w = (Inr (), cache_events rid isbn (mi_cover_url mi)
          @ [LogParsingTags, Clean (finish w mi tags series),
             Put (plugin_clean w (finish w mi tags series))])"
proof (cases "fetched_page w")
  case None
  then show ?thesis using fetch by (simp add: load_details_def)
next
  case (Some root)
  show ?thesis
  proof (cases "extract_fields w root")
    case (Inl e)
    then show ?thesis using Some fields by (simp add: load_details_def)
  next
    case (Inr r)
    obtain rid isbn mi where r: "r = (rid, isbn, mi)" by (cases r) auto
    show ?thesis
    proof (cases "parse_tags w root")
      case (Inl e)
      then show ?thesis using Some Inr r tags by (simp add: load_details_def)
    next
      case tg: (Inr tgs)
      show ?thesis
      proof (cases "series_of (mi_title mi)")
        case (Inl e)
        then show ?thesis using Some Inr r tg series by (simp add: load_details_def)
      next
        case sr: (Inr s)
        then show ?thesis using Some Inr r tg ok by (simp add: load_details_def)
      qed
    qed
  qed
qed

lemma published_append: "published (xs @ ys) = published xs @ published ys"
  by (induction xs rule: published.induct) simp_all

lemma published_cache [simp]: "published (cache_events rid isbn cover) = []"
  by (simp add: cache_events_def split: option.splits)

lemma effects_cache [simp]: "effects (cache_events rid isbn cover) = cache_events rid isbn cover"
  by (simp add: cache_events_def effects_def split: option.splits)

lemma effects_append: "effects (xs @ ys) = effects xs @ effects ys"
  by (simp add: effects_def)

lemma cache_no_clean_put [simp]:
  "Clean m \<notin> set (cache_events rid isbn cover)" "Put m \<notin> set (cache_events rid isbn cover)"
  by (simp_all add: cache_events_def split: option.splits)

lemma select_ld_no_marker:
  "\<forall>t\<in>set texts. \<not> sublist book_marker t \<Longrightarrow> select_ld texts = Inl IndexError"
  by (simp add: select_ld_def filter_False)

lemma extract_fields_no_marker:
  "\<forall>t\<in>set (ld_json_texts root). \<not> sublist book_marker t \<Longrightarrow>
   extract_fields w root = Inl IndexError"
  by (simp add: extract_fields_def load_book_info_def select_ld_no_marker ebind_def)

text \<open>
  C3. For every invocation, a record reaches the result queue if and only if every stage
  succeeded: the fetch, the fields, the tags and the series. Then exactly one record is
  published, as the last event, and it is the cleanup of a populated record. When a
  stage fails nothing is published and the run ends with its log line; so it is when the
  fetch fails, and when no JSON-LD text of the page holds the Book marker.
\<close>

theorem run_publishes_iff_success:
  "(published (run w) \<noteq> [] \<longleftrightarrow>
      (\<exists>root rid isbn mi tags series. fetched_page w = Some root
         \<and> extract_fields w root = Inr (rid, isbn, mi) \<and> parse_tags w root = Inr tags
         \<and> series_of (mi_title mi) = Inr series))
   \<and> (published (run w) \<noteq> [] \<longleftrightarrow> fst (load_details w) = Inr ())
   \<and> (published (run w) = [] \<longrightarrow> last (run w) = LogFailed (self_url w))
   \<and> (published (run w) \<noteq> [] \<longrightarrow>
        (\<exists>mi. populated mi \<and> published (run w) = [plugin_clean w mi]
           \<and> last (run w) = Put (plugin_clean w mi)))
   \<and> (fetched_page w = None \<longrightarrow> published (run w) = [])
   \<and> (\<forall>root. fetched_page w = Some root
         \<and> (\<forall>t\<in>set (ld_json_texts root). \<not> sublist book_marker t)
        \<longrightarrow> published (run w) = [])"
proof (cases w rule: load_details_cases)
  case fetch
  then show ?thesis by (simp add: run_def)
next
  case (fields root e)
  then show ?thesis by (simp add: run_def)
next
  case (tags root rid isbn mi e)
  then show ?thesis by (simp add: run_def published_append extract_fields_no_marker)
next
  case (series root rid isbn mi tags e)
  then show ?thesis by (simp add: run_def published_append extract_fields_no_marker)
next
  case (ok root rid isbn mi tags series)
  have "populated (finish w mi tags series)" using ok(2) by (rule finish_populated)
  moreover have "\<exists>t\<in>set (ld_json_texts root). sublist book_marker t"
    using ok(2) extract_fields_no_marker [of root w] by auto
  ultimately show ?thesis using ok
    by (auto simp: run_def published_append)
qed

text \<open>
  C4, amended. The side effects come in the order: ISBN cache notification, cover cache
  notification, cleanup hook, publication. The hook and the publication happen only when
  every stage succeeded. The cache notifications happen once the fields are extracted and
  normalised, before the tags are mapped and the series is detected: when the fetch or
  the fields fail there is no side effect at all, and when a later stage fails the cache
  notifications are the only side effects.
\<close>

theorem side_effects_order:
  "(fst (load_details w) = Inr () \<longrightarrow>
      (\<exists>root rid isbn mi full. fetched_page w = Some root
         \<and> extract_fields w root = Inr (rid, isbn, mi)
         \<and> effects (run w) = cache_events rid isbn (mi_cover_url mi)
             @ [Clean full, Put (plugin_clean w full)]))
   \<and> (isl (fst (load_details w)) \<longrightarrow> (\<forall>m. Clean m \<notin> set (run w) \<and> Put m \<notin> set (run w)))
   \<and> (fetched_page w = None \<or> (\<exists>root e. fetched_page w = Some root \<and> extract_fields w root = Inl e)
        \<longrightarrow> effects (run w) = [])
   \<and> (\<forall>root rid isbn mi. fetched_page w = Some root
         \<and> extract_fields w root = Inr (rid, isbn, mi) \<and> isl (fst (load_details w))
        \<longrightarrow> effects (run w) = cache_events rid isbn (mi_cover_url mi))"
proof (cases w rule: load_details_cases)
  case fetch
  then show ?thesis by (simp add: run_def effects_def)
next
  case (fields root e)
  then show ?thesis by (simp add: run_def effects_def)
next
  case (tags root rid isbn mi e)
  then show ?thesis by (simp add: run_def effects_append) (simp add: effects_def)
next
  case (series root rid isbn mi tags e)
  then show ?thesis by (simp add: run_def effects_append) (simp add: effects_def)
next
  case (ok root rid isbn mi tags series)
  then show ?thesis by (simp add: run_def effects_append) (simp add: effects_def)
qed

lemma book_authors_shape:
  assumes "map_of kvs (ustr ''author'') = Some (JObj a)" "map_of a (ustr ''name'') = Some (JStr an)"
  shows "map_of kvs (ustr ''translator'') = None \<Longrightarrow>
           book_authors u (JObj kvs) = Inr (format_list u an)"
    and "map_of kvs (ustr ''translator'') = Some (JObj t) \<Longrightarrow> map_of t (ustr ''name'') = Some (JStr tn)
         \<Longrightarrow> book_authors u (JObj kvs)
               = Inr (format_list u an
                   @ map (\<lambda>x. x @ [40, 50669, 51088, 41]) (format_list u tn))"
  using assms by (simp_all add: book_authors_def ebind_def translator_marker_def)

text \<open>
  C10. The authors of the assembled record (the one handed to the cleanup hook) are what
  the Book record gives: without a translator field the split author names; with one,
  the split author names in their order followed by the split translator names, each
  with the four characters \<open>(\<close>, U+C5ED, U+C790, \<open>)\<close> appended (code points 40, 50669,
  51088, 41).
\<close>

theorem translators_follow_authors:
  "(Clean mi \<in> set (run w) \<longrightarrow>
      (\<exists>root book_info. fetched_page w = Some root
         \<and> load_book_info (lib_json_loads w) (ld_json_texts root) = Inr book_info
         \<and> book_authors (lib_unescape w) book_info = Inr (mi_authors mi)))
   \<and> (\<forall>a an. map_of kvs (ustr ''author'') = Some (JObj a) \<and> map_of a (ustr ''name'') = Some (JStr an)
        \<longrightarrow> (map_of kvs (ustr ''translator'') = None
               \<longrightarrow> book_authors u (JObj kvs) = Inr (format_list u an))
          \<and> (\<forall>t tn. map_of kvs (ustr ''translator'') = Some (JObj t)
                 \<and> map_of t (ustr ''name'') = Some (JStr tn)
               \<longrightarrow> book_authors u (JObj kvs)
                     = Inr (format_list u an
                        @ map (\<lambda>x. x @ [40, 50669, 51088, 41]) (format_list u tn))))"
proof (intro conjI impI allI)
  assume c: "Clean mi \<in> set (run w)"
  show "\<exists>root book_info. fetched_page w = Some root
         \<and> load_book_info (lib_json_loads w) (ld_json_texts root) = Inr book_info
         \<and> book_authors (lib_unescape w) book_info = Inr (mi_authors mi)"
  proof (cases w rule: load_details_cases)
    case fetch
    then show ?thesis using c by (simp add: run_def)
  next
    case (fields root e)
    then show ?thesis using c by (simp add: run_def)
  next
    case (tags root rid isbn mi0 e)
    then show ?thesis using c by (simp add: run_def)
  next
    case (series root rid isbn mi0 tags e)
    then show ?thesis using c by (simp add: run_def)
  next
    case (ok root rid isbn mi0 tags series)
    then have "mi = finish w mi0 tags series" using c by (simp add: run_def)
    then have "mi_authors mi = mi_authors mi0" by (simp add: finish_def)
    then show ?thesis using extract_fields_Inr(1) [OF ok(2)] ok(1) by simp
  qed
qed (simp_all add: book_authors_shape)

lemma sample_fields:
  "extract_fields (sample_worker f) sample_page =
     Inr (ustr ''987654'', Some (ustr ''9781234567897''),
       sample_record\<lparr>mi_tags := None, mi_language := None, mi_source_relevance := None\<rparr>)"
  by (simp add: extract_fields_def sample_worker_def sample_page_def sample_book_info_def
      load_book_info_def select_ld_def ebind_def ridibooks_id_of_def books_seg_def
      query_delim_def find_meta_def book_authors_def format_list_def format_item_def
      re_sub_quoted_def quoted_pattern_def unescape_quot_def py_strip_def py_isspace_def
      format_date_def py_int_def int_body_ok_def decimal_value_ascii dec_value_def
      mk_datetime_def fits_c_int_def
      valid_date_def days_in_month_def is_leap_def to_float_def truthy_def Metadata_def
      sample_record_def translator_marker_def ustr_def)

lemma sample_fields_no_link:
  "extract_fields (sample_worker f) no_link_page = extract_fields (sample_worker f) sample_page"
  by (simp add: extract_fields_def no_link_page_def)

lemma sample_tags:
  "parse_tags (sample_worker f) sample_page = Inr (Some [ustr ''Novel'', ustr ''Fantasy & SF''])"
  by (simp add: parse_tags_def sample_worker_def sample_page_def sample_book_info_def
      load_book_info_def select_ld_def ebind_def py_strip_def py_isspace_def
      convert_genres_to_calibre_tags_def convert_step_def append_new_def calibre_tag_map_def
      ascii_lower_def ustr_def)

lemma sample_tags_no_link: "parse_tags (sample_worker f) no_link_page = Inl IndexError"
  by (simp add: parse_tags_def sample_worker_def sample_page_def no_link_page_def
      sample_book_info_def load_book_info_def select_ld_def ebind_def ustr_def)

lemma sample_series: "series_of (Some (ustr ''Tale'')) = Inr None"
  by (simp add: series_of_def detect_series_def series_pattern_def kwon_def hwa_def
      suffix_to_prefix ustr_def py_isspace_def decimal_value_ascii)

lemma sample_finish:
  "finish (sample_worker f)
     (sample_record\<lparr>mi_tags := None, mi_language := None, mi_source_relevance := None\<rparr>)
     (Some [ustr ''Novel'', ustr ''Fantasy & SF'']) None = sample_record"
  by (simp add: finish_def sample_record_def sample_worker_def)

lemma ustr_not_Nil: "ustr (c # cs) \<noteq> []"
  by (simp add: ustr_def)

lemma sample_load_details:
  "load_details (sample_worker (Some sample_page)) =
     (Inr (), [CacheIsbn (ustr ''9781234567897'') (ustr ''987654''),
               CacheCover (ustr ''987654'') (ustr ''c.jpg''),
               LogParsingTags, Clean sample_record, Put sample_record])"
proof -
  have f: "fetched_page (sample_worker (Some sample_page)) = Some sample_page"
    and c: "plugin_clean (sample_worker (Some sample_page)) = (\<lambda>mi. mi)"
    by (simp_all add: sample_worker_def)
  have t: "mi_title (sample_record\<lparr>mi_tags := None, mi_language := None,
        mi_source_relevance := None\<rparr>) = Some (ustr ''Tale'')"
    and u: "mi_cover_url (sample_record\<lparr>mi_tags := None, mi_language := None,
        mi_source_relevance := None\<rparr>) = Some (ustr ''c.jpg'')"
    by (simp_all add: sample_record_def)
  show ?thesis
    unfolding load_details_def f
    by (simp add: sample_fields sample_tags t u sample_series sample_finish c cache_events_def
        Let_def ustr_not_Nil)
qed

lemma no_link_load_details:
  "load_details (sample_worker (Some no_link_page)) =
     (Inl IndexError, [CacheIsbn (ustr ''9781234567897'') (ustr ''987654''),
               CacheCover (ustr ''987654'') (ustr ''c.jpg''), LogParsingTags])"
proof -
  have f: "fetched_page (sample_worker (Some no_link_page)) = Some no_link_page"
    by (simp add: sample_worker_def)
  have u: "mi_cover_url (sample_record\<lparr>mi_tags := None, mi_language := None,
        mi_source_relevance := None\<rparr>) = Some (ustr ''c.jpg'')"
    by (simp add: sample_record_def)
  show ?thesis
    unfolding load_details_def f
    by (simp add: sample_fields_no_link sample_fields sample_tags_no_link u cache_events_def
        Let_def ustr_not_Nil)
qed

text \<open>The sample page is published; without its JSON-LD text nothing is.\<close>

theorem run_publishes_iff_success_witness:
  "published (run (sample_worker (Some sample_page))) = [sample_record]
   \<and> fetched_page (sample_worker (Some (sample_page\<lparr>ld_json_texts := []\<rparr>)))
       = Some (sample_page\<lparr>ld_json_texts := []\<rparr>)
   \<and> ld_json_texts (sample_page\<lparr>ld_json_texts := []\<rparr>) = []
   \<and> published (run (sample_worker (Some (sample_page\<lparr>ld_json_texts := []\<rparr>)))) = []
   \<and> last (run (sample_worker (Some (sample_page\<lparr>ld_json_texts := []\<rparr>))))
       = LogFailed (ustr ''https://ridibooks.com/books/987654?_s=search'')"
proof -
  let ?w = "sample_worker (Some (sample_page\<lparr>ld_json_texts := []\<rparr>))"
  have ok: "published (run (sample_worker (Some sample_page))) = [sample_record]"
    using run_publishes_iff_success [of "sample_worker (Some sample_page)"]
    by (simp add: run_def sample_load_details)
  have f: "fetched_page ?w = Some (sample_page\<lparr>ld_json_texts := []\<rparr>)"
    by (simp add: sample_worker_def)
  have n: "\<forall>t\<in>set (ld_json_texts (sample_page\<lparr>ld_json_texts := []\<rparr>)). \<not> sublist book_marker t"
    by simp
  have p: "published (run ?w) = []"
    using run_publishes_iff_success [of ?w] f n by blast
  then have "last (run ?w) = LogFailed (self_url ?w)"
    using run_publishes_iff_success [of ?w] by blast
  then show ?thesis using ok f n p by (simp add: sample_worker_def)
qed

theorem side_effects_order_witness:
  "fst (load_details (sample_worker (Some sample_page))) = Inr ()
   \<and> effects (run (sample_worker (Some sample_page)))
       = [CacheIsbn (ustr ''9781234567897'') (ustr ''987654''),
          CacheCover (ustr ''987654'') (ustr ''c.jpg''), Clean sample_record, Put sample_record]
   \<and> isl (fst (load_details (sample_worker None)))
   \<and> effects (run (sample_worker None)) = []"
proof -
  have a: "fst (load_details (sample_worker (Some sample_page))) = Inr ()"
    by (simp add: sample_load_details)
  have b: "effects (run (sample_worker (Some sample_page)))
       = [CacheIsbn (ustr ''9781234567897'') (ustr ''987654''),
          CacheCover (ustr ''987654'') (ustr ''c.jpg''), Clean sample_record, Put sample_record]"
    using a side_effects_order [of "sample_worker (Some sample_page)"]
    by (simp add: run_def sample_load_details effects_def)
  have c: "fetched_page (sample_worker None) = None" by (simp add: sample_worker_def)
  then have d: "isl (fst (load_details (sample_worker None)))" by (simp add: load_details_def)
  have "effects (run (sample_worker None)) = []"
    using c side_effects_order [of "sample_worker None"] by blast
  then show ?thesis using a b d by simp
qed

text \<open>
  C4, as stated, fails: on a page whose genre container has no link, the tag stage raises
  \<open>IndexError\<close> after both caches were notified.
\<close>

theorem caches_notified_before_tags_counterexample:
  "parse_tags (sample_worker (Some no_link_page)) no_link_page = Inl IndexError
   \<and> run (sample_worker (Some no_link_page))
       = [CacheIsbn (ustr ''9781234567897'') (ustr ''987654''),
          CacheCover (ustr ''987654'') (ustr ''c.jpg''), LogParsingTags,
          LogFailed (ustr ''https://ridibooks.com/books/987654?_s=search'')]"
  by (simp add: sample_tags_no_link run_def no_link_load_details) (simp add: sample_worker_def)

theorem translators_follow_authors_witness:
  "Clean sample_record \<in> set (run (sample_worker (Some sample_page)))
   \<and> mi_authors sample_record
       = [ustr ''Kim'', ustr ''Lee'', ustr ''Park'' @ [40, 50669, 51088, 41]]
   \<and> book_authors unescape_quot sample_book_info
       = Inr [ustr ''Kim'', ustr ''Lee'', ustr ''Park'' @ [40, 50669, 51088, 41]]"
proof -
  have c: "Clean sample_record \<in> set (run (sample_worker (Some sample_page)))"
    by (simp add: run_def sample_load_details)
  have f: "fetched_page (sample_worker (Some sample_page)) = Some sample_page"
    and l: "load_book_info (lib_json_loads (sample_worker (Some sample_page)))
        (ld_json_texts sample_page) = Inr sample_book_info"
    and u: "lib_unescape (sample_worker (Some sample_page)) = unescape_quot"
    by (simp_all add: sample_worker_def sample_page_def load_book_info_def select_ld_def ebind_def)
  from translators_follow_authors [of sample_record "sample_worker (Some sample_page)"] c
  obtain root book_info where "fetched_page (sample_worker (Some sample_page)) = Some root"
    "load_book_info (lib_json_loads (sample_worker (Some sample_page))) (ld_json_texts root)
       = Inr book_info"
    "book_authors (lib_unescape (sample_worker (Some sample_page))) book_info
       = Inr (mi_authors sample_record)"
    by blast
  then have "book_authors unescape_quot sample_book_info = Inr (mi_authors sample_record)"
    using f l u by simp
  then show ?thesis using c by (simp add: sample_record_def translator_marker_def)
qed

end
